theory Spec2Isabelle
  imports Main "HOL-Library.Word" "HOL-Library.Sublist"
begin

section \<open>The C platform under \<open>readflag.c\<close>\<close>

text \<open>
  The program is one \<open>main\<close> that calls \<open>fopen\<close>, \<open>perror\<close>, \<open>exit\<close>, \<open>fgetc\<close>,
  \<open>printf\<close> and \<open>fclose\<close>. The library calls are modelled by what they do to an explicit
  process state; the two header constants take the values of glibc, the library of the
  \<open>gcc\<close> build that the comments at the top of the source describe.
\<close>

type_synonym byte = "8 word"

text \<open>\<open>EOF\<close> of \<open>stdio.h\<close> and \<open>EXIT_FAILURE\<close> of \<open>stdlib.h\<close>, as glibc defines them.\<close>

definition EOF :: int where
  "EOF = - 1"

definition EXIT_FAILURE :: int where
  "EXIT_FAILURE = 1"

text \<open>
  Whether plain \<open>char\<close> is signed is left to the implementation by the C standard:
  it is signed for \<open>gcc\<close> on x86-64 and unsigned for \<open>gcc\<close> on AArch64. The model keeps
  both. \<open>to_char\<close> is the conversion of the assignment \<open>ch = fgetc(fp)\<close> (eight bits are
  kept), \<open>char_to_int\<close> the integer promotion of \<open>ch\<close> in the comparison with \<open>EOF\<close> and
  in the argument list of \<open>printf\<close>.
\<close>

datatype char_sign = Signed_char | Unsigned_char

definition to_char :: "int \<Rightarrow> byte" where
  "to_char i = word_of_int i"

fun char_to_int :: "char_sign \<Rightarrow> byte \<Rightarrow> int" where
  "char_to_int Signed_char c = sint c"
| "char_to_int Unsigned_char c = uint c"

subsection \<open>The world outside the process\<close>

text \<open>
  A file has its bytes and, possibly, an offset at which the device answers a read with
  an I/O error. A path resolves for reading either to such a file or to the \<open>errno\<close>
  value with which \<open>fopen\<close> fails (the file is missing, or not readable). The command
  line, the environment and standard input are part of the world although \<open>main()\<close>
  declares no parameter and calls nothing that reads them.
\<close>

record file_entry =
  contents :: "byte list"
  read_fault :: "nat option"

record world =
  fs :: "string \<Rightarrow> nat + file_entry"
  strerror :: "nat \<Rightarrow> string"
  argv :: "string list"
  environ :: "string list"
  stdin_bytes :: "byte list"

definition deliverable :: "file_entry \<Rightarrow> byte list" where
  "deliverable f = (case read_fault f of None \<Rightarrow> contents f | Some n \<Rightarrow> take n (contents f))"

definition hits_fault :: "file_entry \<Rightarrow> bool" where
  "hits_fault f = (case read_fault f of None \<Rightarrow> False | Some n \<Rightarrow> n < length (contents f))"

subsection \<open>Streams and the process state\<close>

text \<open>
  An open \<open>FILE\<close>: the bytes it will still deliver, whether an I/O error (rather than the
  end of the file) comes after them, and its two indicators. The process state holds what
  has been written to standard output and standard error, \<open>errno\<close>, the log of the
  \<open>fopen\<close> calls made (path and mode) and the number of streams the program holds open.
\<close>

record file_stream =
  unread :: "byte list"
  fault :: bool
  eof_ind :: bool
  err_ind :: bool

record proc =
  stdout :: "byte list"
  stderr :: string
  errno :: nat
  fopen_calls :: "(string \<times> string) list"
  open_streams :: nat

definition proc_start :: proc where
  "proc_start = \<lparr>stdout = [], stderr = [], errno = 0, fopen_calls = [], open_streams = 0\<rparr>"

text \<open>\<open>fopen\<close> returns \<open>NULL\<close> (\<open>None\<close>) and sets \<open>errno\<close>, or returns a fresh stream.\<close>

definition fopen :: "world \<Rightarrow> string \<Rightarrow> string \<Rightarrow> proc \<Rightarrow> file_stream option \<times> proc" where
  "fopen w path mode p =
     (let p' = p\<lparr>fopen_calls := fopen_calls p @ [(path, mode)]\<rparr> in
      case fs w path of
        Inl e \<Rightarrow> (None, p'\<lparr>errno := e\<rparr>)
      | Inr f \<Rightarrow>
          (Some \<lparr>unread = deliverable f, fault = hits_fault f,
                 eof_ind = False, err_ind = False\<rparr>,
           p'\<lparr>open_streams := open_streams p' + 1\<rparr>))"

text \<open>
  \<open>perror s\<close> writes \<open>s\<close>, a colon and a blank (when \<open>s\<close> is not empty), the text of
  \<open>errno\<close> and a newline to standard error.
\<close>

definition perror :: "world \<Rightarrow> string \<Rightarrow> proc \<Rightarrow> proc" where
  "perror w s p =
     p\<lparr>stderr := stderr p @ (if s = [] then [] else s @ '': '')
                   @ strerror w (errno p) @ [CHR 0x0A]\<rparr>"

text \<open>
  \<open>fgetc\<close> returns the next byte as an \<open>unsigned char\<close> converted to \<open>int\<close>, or \<open>EOF\<close>
  at the end of the file and on a read error, setting the matching indicator.
\<close>

definition fgetc :: "file_stream \<Rightarrow> int \<times> file_stream" where
  "fgetc fp =
     (case unread fp of
        [] \<Rightarrow> (EOF, if fault fp then fp\<lparr>err_ind := True\<rparr> else fp\<lparr>eof_ind := True\<rparr>)
      | b # bs \<Rightarrow> (uint b, fp\<lparr>unread := bs\<rparr>))"

text \<open>\<open>printf("%c", i)\<close> converts its \<open>int\<close> argument to \<open>unsigned char\<close> and writes it.\<close>

definition printf_c :: "int \<Rightarrow> proc \<Rightarrow> proc" where
  "printf_c i p = p\<lparr>stdout := stdout p @ [word_of_int i]\<rparr>"

definition fclose :: "file_stream \<Rightarrow> proc \<Rightarrow> proc" where
  "fclose fp p = p\<lparr>open_streams := open_streams p - 1\<rparr>"

section \<open>The program\<close>

text \<open>
  How a run ends: the exit status (of \<open>exit\<close>, or of the \<open>return\<close> from \<open>main\<close>) and the
  process state at that point.
\<close>

record outcome =
  exit_status :: int
  final :: proc

definition file_name :: string where
  "file_name = ''/root/flag.txt''"

text \<open>
  The loop \<open>while ((ch = fgetc(fp)) != EOF) printf("%c", ch);\<close>. The value of the
  assignment is that of \<open>ch\<close>, a \<open>char\<close>, promoted to \<open>int\<close> for the comparison. The loop
  has no bound of its own, so not returning is the value \<open>None\<close>.
\<close>

partial_function (option) read_loop ::
  "char_sign \<Rightarrow> file_stream \<Rightarrow> proc \<Rightarrow> (file_stream \<times> proc) option" where
  "read_loop k fp p =
     (case fgetc fp of
        (r, fp') \<Rightarrow>
          (let ch = to_char r in
           if char_to_int k ch \<noteq> EOF
           then read_loop k fp' (printf_c (char_to_int k ch) p)
           else Some (fp', p)))"

definition main :: "char_sign \<Rightarrow> world \<Rightarrow> outcome option" where
  "main k w =
     (case fopen w file_name ''r'' proc_start of
        (None, p) \<Rightarrow>
          Some \<lparr>exit_status = EXIT_FAILURE,
                final = perror w (''Error while opening the file.'' @ [CHR 0x0A]) p\<rparr>
      | (Some fp, p) \<Rightarrow>
          (case read_loop k fp p of
             None \<Rightarrow> None
           | Some (fp', p') \<Rightarrow> Some \<lparr>exit_status = 0, final = fclose fp' p'\<rparr>))"

text \<open>
  A machine for concrete runs: the fixed path resolves to \<open>t\<close>, every other path is
  missing (\<open>ENOENT\<close>, 2).
\<close>

definition world_of :: "nat + file_entry \<Rightarrow> world" where
  "world_of t =
     \<lparr>fs = (\<lambda>path. if path = file_name then t else Inl 2),
      strerror = (\<lambda>e. if e = 2 then ''No such file or directory''
                     else if e = 13 then ''Permission denied'' else ''Unknown error''),
      argv = [''/readflag''], environ = [], stdin_bytes = []\<rparr>"



section \<open>The read loop\<close>

lemma to_char_fgetc_byte [simp]: "to_char (uint b) = b"
  by (simp add: to_char_def)

lemma sint_byte_EOF: "sint (b :: byte) = EOF \<longleftrightarrow> b = 0xFF"
proof
  assume "sint b = EOF"
  then have "word_of_int (sint b) = (word_of_int (- 1) :: byte)"
    by (simp add: EOF_def)
  then show "b = 0xFF" by simp
next
  assume "b = 0xFF"
  then show "sint b = EOF" by (simp add: EOF_def)
qed

lemma uint_byte_not_EOF: "uint (b :: byte) \<noteq> EOF"
proof -
  have "0 \<le> uint b" by simp
  then show ?thesis unfolding EOF_def by linarith
qed

lemma signed_char_of_EOF: "sint (to_char EOF) = EOF"
  by (simp add: EOF_def to_char_def)

lemma fgetc_Nil:
  "unread fp = [] \<Longrightarrow>
   fgetc fp = (EOF, if fault fp then fp\<lparr>err_ind := True\<rparr> else fp\<lparr>eof_ind := True\<rparr>)"
  by (simp add: fgetc_def)

lemma fgetc_Cons: "unread fp = b # bs \<Longrightarrow> fgetc fp = (uint b, fp\<lparr>unread := bs\<rparr>)"
  by (simp add: fgetc_def)

text \<open>
  With a signed \<open>char\<close> the loop returns: it has written the bytes before the first
  \<open>0xFF\<close> (or before the end of what the stream delivers), and has consumed that
  \<open>0xFF\<close> byte, whose \<open>char\<close> value equals \<open>EOF\<close>.
\<close>

lemma read_loop_signed:
  "\<exists>fp'. read_loop Signed_char fp p =
           Some (fp', p\<lparr>stdout := stdout p @ takeWhile (\<lambda>b. b \<noteq> 0xFF) (unread fp)\<rparr>)
       \<and> unread fp' = drop 1 (dropWhile (\<lambda>b. b \<noteq> 0xFF) (unread fp))"
proof (induction "unread fp" arbitrary: fp p)
  case Nil
  then have "unread fp = []" by simp
  then show ?case
    by (subst read_loop.simps) (simp add: fgetc_Nil signed_char_of_EOF Let_def)
next
  case (Cons b bs)
  then have u: "unread fp = b # bs" by simp
  show ?case
  proof (cases "b = 0xFF")
    case True
    then show ?thesis using u
      by (subst read_loop.simps) (simp add: fgetc_Cons EOF_def to_char_def Let_def)
  next
    case False
    let ?q = "printf_c (sint b) p"
    have "bs = unread (fp\<lparr>unread := bs\<rparr>)" by simp
    from Cons.hyps(1) [OF this, of ?q]
    obtain fp' where
      "read_loop Signed_char (fp\<lparr>unread := bs\<rparr>) ?q =
         Some (fp', ?q\<lparr>stdout := stdout ?q @ takeWhile (\<lambda>b. b \<noteq> 0xFF) bs\<rparr>)"
      and "unread fp' = drop 1 (dropWhile (\<lambda>b. b \<noteq> 0xFF) bs)"
      by auto
    then show ?thesis using u False
      by (subst read_loop.simps) (simp add: fgetc_Cons sint_byte_EOF printf_c_def)
  qed
qed

text \<open>
  With an unsigned \<open>char\<close> the promoted value of \<open>ch\<close> is never negative, the test
  against \<open>EOF\<close> never fails, and the loop does not return.
\<close>

lemma read_loop_returns_signed:
  assumes "read_loop k fp p = Some y"
  shows "k \<noteq> Unsigned_char"
proof (rule read_loop.raw_induct [where P = "\<lambda>k fp p y. k \<noteq> Unsigned_char", OF _ assms])
  fix f k fp p and y :: "file_stream \<times> proc"
  assume IH: "\<And>k fp p y. f k fp p = Some y \<Longrightarrow> k \<noteq> Unsigned_char"
    and step: "(case fgetc fp of
      (r, fp') \<Rightarrow>
        let ch = to_char r
        in if char_to_int k ch \<noteq> EOF
           then f k fp' (printf_c (char_to_int k ch) p)
           else Some (fp', p)) = Some y"
  show "k \<noteq> Unsigned_char"
  proof
    assume k: "k = Unsigned_char"
    obtain r fp' where g: "fgetc fp = (r, fp')" by (cases "fgetc fp")
    from step have "f k fp' (printf_c (char_to_int k (to_char r)) p) = Some y"
      by (simp add: g k uint_byte_not_EOF)
    from IH [OF this] k show False by simp
  qed
qed

lemma read_loop_unsigned: "read_loop Unsigned_char fp p = None"
  using read_loop_returns_signed [of Unsigned_char fp p]
  by (cases "read_loop Unsigned_char fp p") auto

section \<open>Runs of \<open>main\<close>\<close>

lemma fopen_fails:
  "fs w path = Inl e \<Longrightarrow>
   fopen w path mode p = (None, p\<lparr>fopen_calls := fopen_calls p @ [(path, mode)], errno := e\<rparr>)"
  by (simp add: fopen_def)

lemma fopen_succeeds:
  "fs w path = Inr f \<Longrightarrow>
   fopen w path mode p =
     (Some \<lparr>unread = deliverable f, fault = hits_fault f, eof_ind = False, err_ind = False\<rparr>,
      p\<lparr>fopen_calls := fopen_calls p @ [(path, mode)], open_streams := open_streams p + 1\<rparr>)"
  by (simp add: fopen_def)

lemma main_open_fails:
  assumes "fs w file_name = Inl e"
  shows "main k w =
    Some \<lparr>exit_status = EXIT_FAILURE,
          final = \<lparr>stdout = [],
                   stderr = ''Error while opening the file.'' @ [CHR 0x0A] @ '': ''
                            @ strerror w e @ [CHR 0x0A],
                   errno = e, fopen_calls = [(file_name, ''r'')], open_streams = 0\<rparr>\<rparr>"
  by (simp add: main_def fopen_fails [OF assms] perror_def proc_start_def)

lemma main_open_succeeds:
  assumes "fs w file_name = Inr f"
  shows "main Signed_char w =
    Some \<lparr>exit_status = 0,
          final = \<lparr>stdout = takeWhile (\<lambda>b. b \<noteq> 0xFF) (deliverable f), stderr = [],
                   errno = 0, fopen_calls = [(file_name, ''r'')], open_streams = 0\<rparr>\<rparr>"
proof -
  let ?fp = "\<lparr>unread = deliverable f, fault = hits_fault f, eof_ind = False, err_ind = False\<rparr>"
  let ?p = "proc_start\<lparr>fopen_calls := fopen_calls proc_start @ [(file_name, ''r'')],
                        open_streams := open_streams proc_start + 1\<rparr>"
  obtain fp' where
    "read_loop Signed_char ?fp ?p =
       Some (fp', ?p\<lparr>stdout := stdout ?p @ takeWhile (\<lambda>b. b \<noteq> 0xFF) (unread ?fp)\<rparr>)"
    using read_loop_signed [of ?fp ?p] by blast
  then show ?thesis
    by (simp add: main_def fopen_succeeds [OF assms] fclose_def proc_start_def)
qed

lemma main_unsigned_open_succeeds:
  "fs w file_name = Inr f \<Longrightarrow> main Unsigned_char w = None"
  by (simp add: main_def fopen_succeeds read_loop_unsigned)

lemma main_signed_returns: "\<exists>r. main Signed_char w = Some r"
proof (cases "fs w file_name")
  case (Inl e)
  then show ?thesis by (simp add: main_open_fails)
next
  case (Inr f)
  then show ?thesis by (simp add: main_open_succeeds)
qed

lemma takeWhile_deliverable_prefix:
  "prefix (takeWhile P (deliverable f)) (contents f)"
proof -
  have "prefix (takeWhile P (deliverable f)) (deliverable f)"
    by (metis prefixI takeWhile_dropWhile_id)
  moreover have "prefix (deliverable f) (contents f)"
    by (simp add: deliverable_def take_is_prefix split: option.split)
  ultimately show ?thesis by (rule prefix_order.trans)
qed

text \<open>
  A file that is read without a fault and holds no \<open>0xFF\<close> byte is copied whole.
\<close>

lemma main_copies_file_without_0xFF:
  assumes "fs w file_name = Inr f" and "read_fault f = None" and "0xFF \<notin> set (contents f)"
  shows "main Signed_char w =
    Some \<lparr>exit_status = 0,
          final = \<lparr>stdout = contents f, stderr = [], errno = 0,
                   fopen_calls = [(file_name, ''r'')], open_streams = 0\<rparr>\<rparr>"
proof -
  from assms(2) have "deliverable f = contents f"
    by (simp add: deliverable_def)
  moreover from assms(3) have "takeWhile (\<lambda>b. b \<noteq> 0xFF) (contents f) = contents f"
    by (simp add: takeWhile_eq_all_conv) blast
  ultimately show ?thesis
    by (simp add: main_open_succeeds [OF assms(1)])
qed

lemma fs_world_of: "fs (world_of t) file_name = t"
  by (simp add: world_of_def)

lemma strerror_world_of:
  "strerror (world_of t) e =
     (if e = 2 then ''No such file or directory''
      else if e = 13 then ''Permission denied'' else ''Unknown error'')"
  by (simp add: world_of_def)

section \<open>The claims\<close>

text \<open>
  C1. For every file at the fixed path that exists and is readable, the program writes
  exactly the file's bytes to standard output and exits with status 0. The code does not:
  a file holding the bytes 0x41, 0xFF, 0x42 is opened and read without any fault, and the
  run writes the single byte 0x41, then exits with status 0.
\<close>

theorem readflag_stops_at_byte_0xFF:
  "main Signed_char (world_of (Inr \<lparr>contents = [0x41, 0xFF, 0x42], read_fault = None\<rparr>)) =
     Some \<lparr>exit_status = 0,
           final = \<lparr>stdout = [0x41], stderr = [], errno = 0,
                    fopen_calls = [(''/root/flag.txt'', ''r'')], open_streams = 0\<rparr>\<rparr>"
  using main_open_succeeds [OF fs_world_of,
      of "\<lparr>contents = [0x41, 0xFF, 0x42], read_fault = None\<rparr>"]
  by (simp add: deliverable_def file_name_def)

text \<open>
  C2. When opening the fixed path fails, the program writes an error indication to
  standard error, exits with a non-zero status, writes nothing to standard output and
  calls \<open>fopen\<close> once only.
\<close>

theorem open_failure_reported:
  assumes "fs w file_name = Inl e"
  shows "\<exists>r. main k w = Some r \<and> stderr (final r) \<noteq> [] \<and> exit_status r \<noteq> 0
           \<and> stdout (final r) = [] \<and> length (fopen_calls (final r)) = 1"
  by (simp add: main_open_fails [OF assms] EXIT_FAILURE_def)

theorem open_failure_reported_witness:
  "fs (world_of (Inl 2)) file_name = Inl 2 \<and>
   (\<exists>r. main Signed_char (world_of (Inl 2)) = Some r \<and> stderr (final r) \<noteq> []
        \<and> exit_status r \<noteq> 0 \<and> stdout (final r) = []
        \<and> length (fopen_calls (final r)) = 1)"
  using open_failure_reported [of "world_of (Inl 2)" 2 Signed_char]
  by (simp add: fs_world_of)

text \<open>
  C3, as amended. On a build whose plain \<open>char\<close> is signed, each value of \<open>fgetc\<close> goes
  through \<open>ch\<close> before the test against \<open>EOF\<close>, and the bytes written to standard output
  are always a prefix of the file: the longest prefix without a 0xFF byte of the bytes
  that the stream delivers before a read fails, which is the longest such prefix of the
  file itself when no read fails. The loop stops at the first 0xFF byte delivered: what
  follows it in the stream stays unread.
\<close>

theorem output_is_prefix_before_0xFF:
  "(fs w file_name = Inr f \<longrightarrow>
      (\<exists>r. main Signed_char w = Some r
          \<and> prefix (stdout (final r)) (contents f)
          \<and> stdout (final r) = takeWhile (\<lambda>b. b \<noteq> 0xFF) (deliverable f)
          \<and> (read_fault f = None \<longrightarrow>
               stdout (final r) = takeWhile (\<lambda>b. b \<noteq> 0xFF) (contents f))))
   \<and> (\<exists>fp' p'. read_loop Signed_char fp p = Some (fp', p')
          \<and> stdout p' = stdout p @ takeWhile (\<lambda>b. b \<noteq> 0xFF) (unread fp)
          \<and> unread fp' = drop 1 (dropWhile (\<lambda>b. b \<noteq> 0xFF) (unread fp)))"
proof
  show "fs w file_name = Inr f \<longrightarrow>
      (\<exists>r. main Signed_char w = Some r
          \<and> prefix (stdout (final r)) (contents f)
          \<and> stdout (final r) = takeWhile (\<lambda>b. b \<noteq> 0xFF) (deliverable f)
          \<and> (read_fault f = None \<longrightarrow>
               stdout (final r) = takeWhile (\<lambda>b. b \<noteq> 0xFF) (contents f)))"
  proof
    assume "fs w file_name = Inr f"
    then show "\<exists>r. main Signed_char w = Some r
          \<and> prefix (stdout (final r)) (contents f)
          \<and> stdout (final r) = takeWhile (\<lambda>b. b \<noteq> 0xFF) (deliverable f)
          \<and> (read_fault f = None \<longrightarrow>
               stdout (final r) = takeWhile (\<lambda>b. b \<noteq> 0xFF) (contents f))"
      by (simp add: main_open_succeeds takeWhile_deliverable_prefix)
         (simp add: deliverable_def)
  qed
next
  obtain fp' where
    "read_loop Signed_char fp p =
       Some (fp', p\<lparr>stdout := stdout p @ takeWhile (\<lambda>b. b \<noteq> 0xFF) (unread fp)\<rparr>)"
    "unread fp' = drop 1 (dropWhile (\<lambda>b. b \<noteq> 0xFF) (unread fp))"
    using read_loop_signed [of fp p] by blast
  then show "\<exists>fp' p'. read_loop Signed_char fp p = Some (fp', p')
          \<and> stdout p' = stdout p @ takeWhile (\<lambda>b. b \<noteq> 0xFF) (unread fp)
          \<and> unread fp' = drop 1 (dropWhile (\<lambda>b. b \<noteq> 0xFF) (unread fp))"
    by simp
qed

theorem output_is_prefix_before_0xFF_witness:
  "fs (world_of (Inr \<lparr>contents = [0x43, 0x54, 0xFF, 0x46], read_fault = None\<rparr>)) file_name =
     Inr \<lparr>contents = [0x43, 0x54, 0xFF, 0x46], read_fault = None\<rparr>
   \<and> read_fault \<lparr>contents = [0x43, 0x54, 0xFF, 0x46 :: byte], read_fault = None\<rparr> = None
   \<and> (\<exists>r. main Signed_char
              (world_of (Inr \<lparr>contents = [0x43, 0x54, 0xFF, 0x46], read_fault = None\<rparr>)) = Some r
          \<and> prefix (stdout (final r)) [0x43, 0x54, 0xFF, 0x46]
          \<and> stdout (final r) = [0x43, 0x54])
   \<and> (\<exists>fp' p'. read_loop Signed_char
              \<lparr>unread = [0x43, 0x54, 0xFF, 0x46], fault = False, eof_ind = False,
               err_ind = False\<rparr> proc_start = Some (fp', p')
          \<and> stdout p' = [0x43, 0x54] \<and> unread fp' = [0x46])"
  using output_is_prefix_before_0xFF
    [of "world_of (Inr \<lparr>contents = [0x43, 0x54, 0xFF, 0x46], read_fault = None\<rparr>)"
        "\<lparr>contents = [0x43, 0x54, 0xFF, 0x46], read_fault = None\<rparr>"
        "\<lparr>unread = [0x43, 0x54, 0xFF, 0x46], fault = False, eof_ind = False, err_ind = False\<rparr>"
        proc_start]
  by (simp add: fs_world_of proc_start_def deliverable_def)

text \<open>
  Without the two conditions the statement does not hold. A read error at offset 1 of
  the file 0x41, 0x42 ends the output after 0x41, although the file has no 0xFF byte and
  its longest prefix without one is the whole file. On a build whose plain \<open>char\<close> is
  unsigned the run on that file never ends, so there is no output to speak of.
\<close>

theorem output_not_longest_prefix_of_file:
  "map_option (stdout \<circ> final)
     (main Signed_char (world_of (Inr \<lparr>contents = [0x41, 0x42], read_fault = Some 1\<rparr>))) =
     Some [0x41]
   \<and> map_option (stdout \<circ> final)
       (main Signed_char (world_of (Inr \<lparr>contents = [0x41, 0x42], read_fault = Some 1\<rparr>))) \<noteq>
     Some (takeWhile ((\<noteq>) 0xFF) [0x41, 0x42])
   \<and> main Unsigned_char (world_of (Inr \<lparr>contents = [0x41, 0x42], read_fault = None\<rparr>)) = None"
  using main_open_succeeds [OF fs_world_of,
      of "\<lparr>contents = [0x41, 0x42], read_fault = Some 1\<rparr>"]
    main_unsigned_open_succeeds [OF fs_world_of,
      of "\<lparr>contents = [0x41, 0x42], read_fault = None\<rparr>"]
  by (simp add: deliverable_def)

text \<open>
  C4. Whenever opening the fixed path succeeds the program should exit with status 0.
  On a build whose plain \<open>char\<close> is unsigned it does not: the file \<open>flag\<close> (0x66, 0x6C,
  0x61, 0x67) is opened, and the run never reaches \<open>return 0\<close>, because the value of
  \<open>ch\<close> cannot equal \<open>EOF\<close>.
\<close>

theorem open_success_never_exits_unsigned_char:
  "main Unsigned_char
     (world_of (Inr \<lparr>contents = [0x66, 0x6C, 0x61, 0x67], read_fault = None\<rparr>)) = None"
  by (rule main_unsigned_open_succeeds [OF fs_world_of])

text \<open>
  C5. On an empty file the program should write nothing and exit with status 0. On a
  build whose plain \<open>char\<close> is unsigned it does not: the first \<open>fgetc\<close> answers \<open>EOF\<close>,
  \<open>ch\<close> holds 255, the test against \<open>EOF\<close> passes, and the run never ends.
\<close>

theorem empty_file_never_exits_unsigned_char:
  "main Unsigned_char (world_of (Inr \<lparr>contents = [], read_fault = None\<rparr>)) = None"
  by (rule main_unsigned_open_succeeds [OF fs_world_of])



text \<open>
  C7. On every finite file the loop should read until the end of the stream and then
  stop. It does neither on every input. On a build whose plain \<open>char\<close> is unsigned the loop
  on the stream 0x41, 0x42 never returns. On a build whose plain \<open>char\<close> is signed the loop
  on the stream 0x41, 0xFF, 0x42 returns after two calls of \<open>fgetc\<close>: the byte 0x42 is
  still unread and the end-of-file indicator is not set.
\<close>

theorem read_loop_misses_end_of_stream:
  "read_loop Unsigned_char
     \<lparr>unread = [0x41, 0x42], fault = False, eof_ind = False, err_ind = False\<rparr> proc_start = None
   \<and> read_loop Signed_char
       \<lparr>unread = [0x41, 0xFF, 0x42], fault = False, eof_ind = False, err_ind = False\<rparr>
       proc_start =
     Some (\<lparr>unread = [0x42], fault = False, eof_ind = False, err_ind = False\<rparr>,
           \<lparr>stdout = [0x41], stderr = [], errno = 0, fopen_calls = [], open_streams = 0\<rparr>)"
proof
  show "read_loop Unsigned_char
     \<lparr>unread = [0x41, 0x42], fault = False, eof_ind = False, err_ind = False\<rparr> proc_start = None"
    by (rule read_loop_unsigned)
next
  show "read_loop Signed_char
       \<lparr>unread = [0x41, 0xFF, 0x42], fault = False, eof_ind = False, err_ind = False\<rparr>
       proc_start =
     Some (\<lparr>unread = [0x42], fault = False, eof_ind = False, err_ind = False\<rparr>,
           \<lparr>stdout = [0x41], stderr = [], errno = 0, fopen_calls = [], open_streams = 0\<rparr>)"
    apply (subst read_loop.simps)
    apply (simp add: fgetc_def EOF_def Let_def)
    apply (subst read_loop.simps)
    apply (simp add: fgetc_def EOF_def to_char_def printf_c_def proc_start_def Let_def)
    done
qed

text \<open>
  C8. Every run calls \<open>fopen\<close> once, on the path \<open>/root/flag.txt\<close>, and the run does not
  change when the command line, the environment or standard input change.
\<close>

theorem one_fixed_path_only:
  "(\<exists>r. main Signed_char w = Some r \<and> fopen_calls (final r) = [(''/root/flag.txt'', ''r'')])
   \<and> main k (w\<lparr>argv := a, environ := e, stdin_bytes := i\<rparr>) = main k w"
proof
  show "\<exists>r. main Signed_char w = Some r \<and> fopen_calls (final r) = [(''/root/flag.txt'', ''r'')]"
    by (cases "fs w file_name")
       (simp_all add: main_open_fails main_open_succeeds, simp_all add: file_name_def)
next
  show "main k (w\<lparr>argv := a, environ := e, stdin_bytes := i\<rparr>) = main k w"
    by (cases "fs w file_name") (simp_all add: main_def fopen_def perror_def)
qed

text \<open>
  C9. No stream is left open when the program ends. When \<open>fopen\<close> fails no stream was
  acquired; when it succeeds the program holds one stream through the loop and the state
  at the end is that left by \<open>fclose\<close>.
\<close>

theorem stream_closed_at_exit:
  "\<exists>r. main Signed_char w = Some r \<and> open_streams (final r) = 0
      \<and> (case fopen w file_name ''r'' proc_start of
            (None, p) \<Rightarrow> open_streams p = 0
          | (Some fp, p) \<Rightarrow>
              open_streams p = 1
              \<and> (\<exists>fp' p'. read_loop Signed_char fp p = Some (fp', p')
                    \<and> open_streams p' = 1 \<and> final r = fclose fp' p'))"
proof (cases "fs w file_name")
  case (Inl e)
  then show ?thesis
    by (simp add: main_open_fails fopen_fails proc_start_def)
next
  case (Inr f)
  let ?fp = "\<lparr>unread = deliverable f, fault = hits_fault f, eof_ind = False, err_ind = False\<rparr>"
  let ?p = "proc_start\<lparr>fopen_calls := fopen_calls proc_start @ [(file_name, ''r'')],
                        open_streams := open_streams proc_start + 1\<rparr>"
  obtain fp' where
    "read_loop Signed_char ?fp ?p =
       Some (fp', ?p\<lparr>stdout := stdout ?p @ takeWhile (\<lambda>b. b \<noteq> 0xFF) (unread ?fp)\<rparr>)"
    using read_loop_signed [of ?fp ?p] by blast
  then show ?thesis
    by (simp add: main_open_succeeds [OF Inr] fopen_succeeds [OF Inr] fclose_def proc_start_def)
qed

text \<open>
  C10. When opening fails the exit status is \<open>EXIT_FAILURE\<close>, which is 1, and standard
  error receives the text \<open>Error while opening the file.\<close> (with the newline of the
  string literal), then what \<open>perror\<close> adds: a colon, a blank, the system's text for
  \<open>errno\<close> and a newline.
\<close>

theorem open_failure_status_and_message:
  assumes "fs w file_name = Inl e"
  shows "\<exists>r. main k w = Some r \<and> exit_status r = EXIT_FAILURE \<and> exit_status r = 1
           \<and> prefix ''Error while opening the file.'' (stderr (final r))
           \<and> stderr (final r) =
               ''Error while opening the file.'' @ [CHR 0x0A] @ '': '' @ strerror w e @ [CHR 0x0A]"
  by (simp add: main_open_fails [OF assms] EXIT_FAILURE_def)

theorem open_failure_status_and_message_witness:
  "fs (world_of (Inl 13)) file_name = Inl 13 \<and>
   (\<exists>r. main Signed_char (world_of (Inl 13)) = Some r \<and> exit_status r = 1
        \<and> stderr (final r) =
            ''Error while opening the file.'' @ [CHR 0x0A] @ '': Permission denied'' @ [CHR 0x0A])"
  using open_failure_status_and_message [of "world_of (Inl 13)" 13 Signed_char]
  by (auto simp add: fs_world_of strerror_world_of)

end
